theory Spec2Isabelle
  imports Complex_Main
begin

section \<open>Python numerics\<close>

text \<open>
  Python \<open>float\<close> values are modelled by \<^typ>\<open>real\<close> and every arithmetic
  operation is exact; Python \<open>int\<close> values are modelled by \<^typ>\<open>int\<close>.
  \<open>int(x)\<close> on a float truncates toward zero.
\<close>

definition py_int :: "real \<Rightarrow> int" where
  "py_int x = (if 0 \<le> x then \<lfloor>x\<rfloor> else \<lceil>x\<rceil>)"

section \<open>Exceptions\<close>

text \<open>
  The exception classes of \<open>utils.py\<close> that the modelled functions raise, and the
  built-in exceptions of the interpreter. The constructor argument records which
  \<open>raise\<close> statement produced the exception (the source distinguishes them by
  message text only).
\<close>

datatype transform_failure = SingularMatrix | DivisionByZero

datatype bounds_failure = NegativeOrigin | OriginOutside | NonPositiveSize

datatype error =
    CoordinateTransformError transform_failure
  | InvalidBoundsError bounds_failure
  | GDALError
  | FileNotFoundError
  | RuntimeError
  | ZeroDivisionError
  | TypeError

section \<open>coord\_transform.py\<close>

text \<open>
  A GDAL geotransform
  \<open>(x_origin, pixel_width, x_rotation, y_origin, y_rotation, pixel_height)\<close>.
\<close>

type_synonym geotransform = "real \<times> real \<times> real \<times> real \<times> real \<times> real"


definition pixel_to_geo :: "geotransform \<Rightarrow> int \<Rightarrow> int \<Rightarrow> real \<times> real" where
  "pixel_to_geo gt pixel_x pixel_y =
     (case gt of (x_origin, pixel_width, x_rotation, y_origin, y_rotation, pixel_height) \<Rightarrow>
        (x_origin + of_int pixel_x * pixel_width + of_int pixel_y * x_rotation,
         y_origin + of_int pixel_x * y_rotation + of_int pixel_y * pixel_height))"

definition calculate_crop_geotransform :: "geotransform \<Rightarrow> int \<Rightarrow> int \<Rightarrow> geotransform" where
  "calculate_crop_geotransform original_gt x_off y_off =
     (case original_gt of (x_origin, pixel_width, x_rotation, y_origin, y_rotation, pixel_height) \<Rightarrow>
        (let new_x_origin = x_origin + of_int x_off * pixel_width + of_int y_off * x_rotation;
             new_y_origin = y_origin + of_int x_off * y_rotation + of_int y_off * pixel_height
         in (new_x_origin, pixel_width, x_rotation, new_y_origin, y_rotation, pixel_height)))"


section \<open>utils.py and crop\_core.py\<close>

type_synonym bounds = "int \<times> int \<times> int \<times> int"

definition validate_pixel_bounds :: "bounds \<Rightarrow> int \<Rightarrow> int \<Rightarrow> error + bounds" where
  "validate_pixel_bounds bounds img_width img_height =
     (case bounds of (x_off, y_off, x_size, y_size) \<Rightarrow>
        if x_off < 0 \<or> y_off < 0 then Inl (InvalidBoundsError NegativeOrigin)
        else if x_off \<ge> img_width \<or> y_off \<ge> img_height then Inl (InvalidBoundsError OriginOutside)
        else if x_size \<le> 0 \<or> y_size \<le> 0 then Inl (InvalidBoundsError NonPositiveSize)
        else
          (let x_size = (if x_off + x_size > img_width then img_width - x_off else x_size);
               y_size = (if y_off + y_size > img_height then img_height - y_off else y_size)
           in Inr (x_off, y_off, x_size, y_size)))"

text \<open>
  The raster files are external. What \<open>crop_by_pixel\<close> learns from them is a
  parameter: the outcome of \<open>open_raster\<close> with \<open>get_raster_info\<close> and
  \<open>get_geotransform\<close>, whether \<open>create_raster\<close> succeeds (it raises
  \<open>GDALError\<close> otherwise) and whether the band copy succeeds (the GDAL bindings
  raise otherwise; the handler re-raises every exception unchanged). A successful run
  is described by what it asked GDAL to write.
\<close>

record raster_info =
  width :: int
  height :: int
  geotransform :: geotransform

record raster_io =
  opened :: "error + raster_info"
  create_ok :: bool
  copy_ok :: bool

record crop_output =
  dst_width :: int
  dst_height :: int
  dst_gt :: geotransform
  src_window :: bounds

definition crop_by_pixel :: "raster_io \<Rightarrow> int \<Rightarrow> int \<Rightarrow> int \<Rightarrow> int \<Rightarrow> error + crop_output" where
  "crop_by_pixel io x_off y_off x_size y_size =
     (case opened io of
        Inl e \<Rightarrow> Inl e
      | Inr src_info \<Rightarrow>
        (case validate_pixel_bounds (x_off, y_off, x_size, y_size) (width src_info) (height src_info) of
           Inl e \<Rightarrow> Inl e
         | Inr (x_off, y_off, x_size, y_size) \<Rightarrow>
           (let src_gt = geotransform src_info;
                dst_gt = calculate_crop_geotransform src_gt x_off y_off
            in if \<not> create_ok io then Inl GDALError
               else if \<not> copy_ok io then Inl RuntimeError
               else Inr \<lparr>dst_width = x_size, dst_height = y_size, dst_gt = dst_gt,
                         src_window = (x_off, y_off, x_size, y_size)\<rparr>)))"

section \<open>gui.py: the state of ImageCropApp\<close>

text \<open>
  Only the fields that the viewport and the crop rectangle depend on are kept; the
  canvas items, labels and message boxes are not modelled. \<open>original_image\<close>
  records whether an image is loaded. An entry field holds text; it is modelled by
  the result of \<open>float(...)\<close> on that text, \<open>None\<close> when \<open>float\<close> raises
  \<open>ValueError\<close>. The entries are kept in the order \<open>x, y, w, h\<close>.
\<close>

datatype coord_mode = Pixel | Geo

datatype drag_mode = Move | Resize

datatype handle = NW | NE | SW | SE

record app =
  original_image :: bool
  scale :: real
  offset_x :: real
  offset_y :: real
  img_width :: int
  img_height :: int
  geo_transform :: "geotransform option"
  has_geo :: bool
  inv_geo_transform :: "geotransform option"
  coord_mode :: coord_mode
  entries :: "real option \<times> real option \<times> real option \<times> real option"
  dragging_crop :: bool
  crop_start_x :: int
  crop_start_y :: int
  crop_drag_mode :: "drag_mode option"
  active_handle :: "handle option"
  drag_start_bounds :: "bounds option"
  crop_bounds :: "bounds option"

text \<open>
  An event handler either returns or raises; in both cases the fields assigned so far
  keep their new values (Tk reports an exception of a callback and goes on).
\<close>

datatype 'a outcome = Returned 'a | Raised error 'a

fun state_of :: "'a outcome \<Rightarrow> 'a" where
  "state_of (Returned s) = s"
| "state_of (Raised e s) = s"

fun and_then :: "'a outcome \<Rightarrow> ('a \<Rightarrow> 'a outcome) \<Rightarrow> 'a outcome" where
  "and_then (Returned s) f = f s"
| "and_then (Raised e s) f = Raised e s"

definition ZOOM_FACTOR :: real where "ZOOM_FACTOR = 12 / 10"
definition MIN_ZOOM :: real where "MIN_ZOOM = 1 / 10"
definition MAX_ZOOM :: real where "MAX_ZOOM = 50"
definition HANDLE_SIZE :: real where "HANDLE_SIZE = 8"

subsection \<open>Coordinate conversions\<close>

definition image_to_canvas :: "app \<Rightarrow> real \<Rightarrow> real \<Rightarrow> real \<times> real" where
  "image_to_canvas s ix iy = (ix * scale s + offset_x s, iy * scale s + offset_y s)"

definition canvas_to_image :: "app \<Rightarrow> real \<Rightarrow> real \<Rightarrow> error + (real \<times> real)" where
  "canvas_to_image s cx cy =
     (if scale s = 0 then Inl ZeroDivisionError
      else Inr ((cx - offset_x s) / scale s, (cy - offset_y s) / scale s))"

text \<open>
  \<open>_geo_to_pixel\<close> and \<open>_pixel_to_geo\<close> of the class (an Isabelle name cannot
  start with an underscore). Subscripting \<open>self.geo_transform\<close> when it is
  \<open>None\<close> raises \<open>TypeError\<close>.
\<close>

definition gui_geo_to_pixel :: "app \<Rightarrow> real \<Rightarrow> real \<Rightarrow> error + (real \<times> real)" where
  "gui_geo_to_pixel s gx gy =
     (if \<not> has_geo s then Inr (gx, gy)
      else
        (case inv_geo_transform s of
           Some (g0, g1, g2, g3, g4, g5) \<Rightarrow> Inr (g0 + gx * g1 + gy * g2, g3 + gx * g4 + gy * g5)
         | None \<Rightarrow>
           (case geo_transform s of
              None \<Rightarrow> Inl TypeError
            | Some (g0, g1, g2, g3, g4, g5) \<Rightarrow>
                if g1 = 0 then Inl ZeroDivisionError
                else if g5 = 0 then Inl ZeroDivisionError
                else Inr ((gx - g0) / g1, (gy - g3) / g5))))"

definition gui_pixel_to_geo :: "app \<Rightarrow> real \<Rightarrow> real \<Rightarrow> error + (real \<times> real)" where
  "gui_pixel_to_geo s px py =
     (if \<not> has_geo s then Inr (px, py)
      else
        (case geo_transform s of
           None \<Rightarrow> Inl TypeError
         | Some (g0, g1, g2, g3, g4, g5) \<Rightarrow> Inr (g0 + px * g1 + py * g2, g3 + px * g4 + py * g5)))"

subsection \<open>Viewport operations\<close>

text \<open>
  \<open>redraw\<close> changes the canvas only. It can raise before its own \<open>try\<close> block,
  when \<open>canvas_to_image\<close> divides by a zero scale.
\<close>

definition redraw :: "app \<Rightarrow> app outcome" where
  "redraw s =
     (if \<not> original_image s then Returned s
      else if scale s = 0 then Raised ZeroDivisionError s
      else Returned s)"

text \<open>\<open>cw\<close> and \<open>ch\<close> are what \<open>winfo_width()\<close> and \<open>winfo_height()\<close> return.\<close>

definition zoom_fit :: "app \<Rightarrow> int \<Rightarrow> int \<Rightarrow> app outcome" where
  "zoom_fit s cw ch =
     (if \<not> original_image s then Returned s
      else
        (let (cw, ch) = (if cw < 10 then (800, 600) else (cw, ch)) in
           if img_width s = 0 then Raised ZeroDivisionError s
           else if img_height s = 0 then Raised ZeroDivisionError s
           else
             (let w_ratio = real_of_int cw / real_of_int (img_width s);
                  h_ratio = real_of_int ch / real_of_int (img_height s);
                  s = s\<lparr>scale := min w_ratio h_ratio * (95 / 100)\<rparr>;
                  disp_w = real_of_int (img_width s) * scale s;
                  disp_h = real_of_int (img_height s) * scale s;
                  s = s\<lparr>offset_x := (real_of_int cw - disp_w) / 2\<rparr>;
                  s = s\<lparr>offset_y := (real_of_int ch - disp_h) / 2\<rparr>
              in redraw s)))"

definition zoom_view :: "app \<Rightarrow> real \<Rightarrow> int \<Rightarrow> int \<Rightarrow> app outcome" where
  "zoom_view s factor cw ch =
     (if \<not> original_image s then Returned s
      else
        (let cx = real_of_int cw / 2;
             cy = real_of_int ch / 2;
             new_scale = scale s * factor;
             new_scale = (if new_scale < MIN_ZOOM then MIN_ZOOM else new_scale);
             new_scale = (if new_scale > MAX_ZOOM then MAX_ZOOM else new_scale)
         in if scale s = 0 then Raised ZeroDivisionError s
            else
              (let real_factor = new_scale / scale s;
                   s = s\<lparr>scale := new_scale\<rparr>;
                   s = s\<lparr>offset_x := cx - (cx - offset_x s) * real_factor\<rparr>;
                   s = s\<lparr>offset_y := cy - (cy - offset_y s) * real_factor\<rparr>
               in redraw s)))"

text \<open>
  The wheel event: \<open>num\<close> and \<open>delta\<close> are the event's fields, \<open>mx\<close> and
  \<open>my\<close> the canvas coordinates of the pointer.
\<close>

definition on_mouse_wheel :: "app \<Rightarrow> int \<Rightarrow> int \<Rightarrow> real \<Rightarrow> real \<Rightarrow> app outcome" where
  "on_mouse_wheel s num delta mx my =
     (if \<not> original_image s then Returned s
      else
        (let factor = (if num = 5 \<or> delta < 0 then 1 / ZOOM_FACTOR else ZOOM_FACTOR);
             new_scale = scale s * factor;
             new_scale = (if new_scale < MIN_ZOOM then MIN_ZOOM else new_scale);
             new_scale = (if new_scale > MAX_ZOOM then MAX_ZOOM else new_scale)
         in if scale s = 0 then Raised ZeroDivisionError s
            else
              (let real_factor = new_scale / scale s;
                   s = s\<lparr>scale := new_scale\<rparr>;
                   s = s\<lparr>offset_x := mx - (mx - offset_x s) * real_factor\<rparr>;
                   s = s\<lparr>offset_y := my - (my - offset_y s) * real_factor\<rparr>
               in redraw s)))"

subsection \<open>The numeric entry fields\<close>

text \<open>
  \<open>"{:.0f}".format(v)\<close> and \<open>"{:.6f}".format(v)\<close> round to the nearest value
  with that many decimals, ties to even. \<open>fmt\<close> gives the number that the
  formatted text denotes.
\<close>

definition round_half_even :: "real \<Rightarrow> int" where
  "round_half_even v =
     (let f = \<lfloor>v\<rfloor>; d = v - of_int f in
        if d < 1 / 2 then f
        else if d > 1 / 2 then f + 1
        else if even f then f else f + 1)"

definition fmt :: "coord_mode \<Rightarrow> real \<Rightarrow> real" where
  "fmt mode v =
     (if mode = Pixel then of_int (round_half_even v)
      else of_int (round_half_even (v * 10 ^ 6)) / 10 ^ 6)"

definition set_entries :: "app \<Rightarrow> coord_mode \<Rightarrow> real \<times> real \<times> real \<times> real \<Rightarrow> app" where
  "set_entries s mode vals =
     (case vals of (x, y, w, h) \<Rightarrow>
        s\<lparr>entries := (Some (fmt mode x), Some (fmt mode y), Some (fmt mode w), Some (fmt mode h))\<rparr>)"

text \<open>
  \<open>update_crop_inputs\<close>. Without a crop rectangle the numbers in the fields are
  converted to the other unit; only \<open>ValueError\<close> is caught there.
\<close>

definition update_crop_inputs :: "app \<Rightarrow> app outcome" where
  "update_crop_inputs s =
     (let mode = coord_mode s in
        case crop_bounds s of
          None \<Rightarrow>
            (case entries s of
               (Some v_x, Some v_y, Some v_w, Some v_h) \<Rightarrow>
                 (if mode = Geo then
                    (case gui_pixel_to_geo s v_x v_y of
                       Inl e \<Rightarrow> Raised e s
                     | Inr (gx1, gy1) \<Rightarrow>
                       (case gui_pixel_to_geo s (v_x + v_w) (v_y + v_h) of
                          Inl e \<Rightarrow> Raised e s
                        | Inr (gx2, gy2) \<Rightarrow>
                            Returned (set_entries s mode
                              (min gx1 gx2, min gy1 gy2, \<bar>gx1 - gx2\<bar>, \<bar>gy1 - gy2\<bar>))))
                  else
                    (case gui_geo_to_pixel s v_x v_y of
                       Inl e \<Rightarrow> Raised e s
                     | Inr (px1, py1) \<Rightarrow>
                       (case gui_geo_to_pixel s (v_x + v_w) (v_y + v_h) of
                          Inl e \<Rightarrow> Raised e s
                        | Inr (px2, py2) \<Rightarrow>
                            Returned (set_entries s mode
                              (min px1 px2, min py1 py2, \<bar>px1 - px2\<bar>, \<bar>py1 - py2\<bar>)))))
             | _ \<Rightarrow> Returned s)
        | Some (x, y, w, h) \<Rightarrow>
            (if mode = Pixel then
               Returned (set_entries s mode (of_int x, of_int y, of_int w, of_int h))
             else
               (case gui_pixel_to_geo s (of_int x) (of_int y) of
                  Inl e \<Rightarrow> Raised e s
                | Inr (gx, gy) \<Rightarrow>
                  (case gui_pixel_to_geo s (of_int (x + w)) (of_int (y + h)) of
                     Inl e \<Rightarrow> Raised e s
                   | Inr (gx2, gy2) \<Rightarrow>
                       Returned (set_entries s mode
                         (min gx gx2, min gy gy2, \<bar>gx2 - gx\<bar>, \<bar>gy2 - gy\<bar>))))))"

text \<open>
  \<open>apply_input_bounds\<close>: the numeric-entry commit. A field that is not a number
  raises \<open>ValueError\<close>, which is caught (a warning box is shown, nothing changes).
\<close>

definition apply_input_bounds :: "app \<Rightarrow> app outcome" where
  "apply_input_bounds s =
     (if \<not> original_image s then Returned s
      else
        (case entries s of
           (Some v_x, Some v_y, Some v_w, Some v_h) \<Rightarrow>
             (if coord_mode s = Pixel then
                redraw (s\<lparr>crop_bounds := Some (py_int v_x, py_int v_y, py_int v_w, py_int v_h)\<rparr>)
              else
                (case gui_geo_to_pixel s v_x v_y of
                   Inl e \<Rightarrow> Raised e s
                 | Inr (p1_x, p1_y) \<Rightarrow>
                   (case gui_geo_to_pixel s (v_x + v_w) (v_y + v_h) of
                      Inl e \<Rightarrow> Raised e s
                    | Inr (p2_x, p2_y) \<Rightarrow>
                      (let x = min p1_x p2_x;
                           y = min p1_y p2_y;
                           w = \<bar>p2_x - p1_x\<bar>;
                           h = \<bar>p2_y - p1_y\<bar>
                       in redraw (s\<lparr>crop_bounds := Some (py_int x, py_int y, py_int w, py_int h)\<rparr>)))))
         | _ \<Rightarrow> Returned s))"

subsection \<open>The crop rectangle\<close>

fun handle_name :: "handle \<Rightarrow> string" where
  "handle_name NW = ''nw''"
| "handle_name NE = ''ne''"
| "handle_name SW = ''sw''"
| "handle_name SE = ''se''"

text \<open>\<open>_get_handle_at\<close>: the dictionary is visited in the order it is written.\<close>

definition get_handle_at :: "app \<Rightarrow> int \<Rightarrow> int \<Rightarrow> handle option" where
  "get_handle_at s cx cy =
     (case crop_bounds s of
        None \<Rightarrow> None
      | Some (bx, by, bw, bh) \<Rightarrow>
        (let (hx1, hy1) = image_to_canvas s (of_int bx) (of_int by);
             (hx2, hy2) = image_to_canvas s (of_int (bx + bw)) (of_int (by + bh));
             hs = HANDLE_SIZE + 4;
             handles = [(NW, (hx1, hy1)), (NE, (hx2, hy1)), (SW, (hx1, hy2)), (SE, (hx2, hy2))]
         in map_option fst
              (find (\<lambda>(name, (hx, hy)). \<bar>of_int cx - hx\<bar> \<le> hs \<and> \<bar>of_int cy - hy\<bar> \<le> hs) handles)))"

definition is_inside_crop :: "app \<Rightarrow> int \<Rightarrow> int \<Rightarrow> bool" where
  "is_inside_crop s cx cy =
     (case crop_bounds s of
        None \<Rightarrow> False
      | Some (bx, by, bw, bh) \<Rightarrow>
        (let (cx1, cy1) = image_to_canvas s (of_int bx) (of_int by);
             (cx2, cy2) = image_to_canvas s (of_int (bx + bw)) (of_int (by + bh))
         in cx1 < of_int cx \<and> of_int cx < cx2 \<and> cy1 < of_int cy \<and> of_int cy < cy2))"

definition on_crop_start :: "app \<Rightarrow> int \<Rightarrow> int \<Rightarrow> app" where
  "on_crop_start s cx cy =
     (if \<not> original_image s then s
      else
        (case get_handle_at s cx cy of
           Some handle \<Rightarrow>
             s\<lparr>crop_drag_mode := Some Resize, active_handle := Some handle,
               drag_start_bounds := crop_bounds s, crop_start_x := cx, crop_start_y := cy\<rparr>
         | None \<Rightarrow>
             if is_inside_crop s cx cy then
               s\<lparr>crop_drag_mode := Some Move, active_handle := None,
                 drag_start_bounds := crop_bounds s, crop_start_x := cx, crop_start_y := cy\<rparr>
             else
               s\<lparr>dragging_crop := True, crop_drag_mode := None,
                 crop_start_x := cx, crop_start_y := cy, crop_bounds := None\<rparr>))"

text \<open>
  \<open>on_crop_drag\<close>. In the resize branch \<open>'e' in h\<close> raises \<open>TypeError\<close> when
  no handle is active. The last branch draws the temporary rectangle and its size
  label on the canvas and changes no field.
\<close>

definition on_crop_drag :: "app \<Rightarrow> int \<Rightarrow> int \<Rightarrow> app outcome" where
  "on_crop_drag s cx cy =
     (case (if crop_drag_mode s = Some Move then drag_start_bounds s else None) of
        Some (ox, oy, ow, oh) \<Rightarrow>
          (let dx = cx - crop_start_x s;
               dy = cy - crop_start_y s
           in if scale s = 0 then Raised ZeroDivisionError s
              else
                (let dx_img = of_int dx / scale s;
                     dy_img = of_int dy / scale s;
                     new_x = py_int (of_int ox + dx_img);
                     new_y = py_int (of_int oy + dy_img);
                     new_x = max 0 (min new_x (img_width s - ow));
                     new_y = max 0 (min new_y (img_height s - oh))
                 in redraw (s\<lparr>crop_bounds := Some (new_x, new_y, ow, oh)\<rparr>)))
      | None \<Rightarrow>
        (case (if crop_drag_mode s = Some Resize then drag_start_bounds s else None) of
           Some (ox, oy, ow, oh) \<Rightarrow>
             (if scale s = 0 then Raised ZeroDivisionError s
              else
                (let dx = of_int (cx - crop_start_x s) / scale s;
                     dy = of_int (cy - crop_start_y s) / scale s
                 in case active_handle s of
                      None \<Rightarrow> Raised TypeError s
                    | Some handle \<Rightarrow>
                      (let h = handle_name handle;
                           nx = of_int ox; ny = of_int oy; nw = of_int ow; nh = of_int oh;
                           nw = (if CHR ''e'' \<in> set h then max 10 (of_int ow + dx) else nw);
                           nx = (if CHR ''w'' \<in> set h then of_int ox + dx else nx);
                           nw = (if CHR ''w'' \<in> set h then max 10 (of_int ow - dx) else nw);
                           nh = (if CHR ''s'' \<in> set h then max 10 (of_int oh + dy) else nh);
                           ny = (if CHR ''n'' \<in> set h then of_int oy + dy else ny);
                           nh = (if CHR ''n'' \<in> set h then max 10 (of_int oh - dy) else nh)
                       in redraw (s\<lparr>crop_bounds := Some (py_int nx, py_int ny, py_int nw, py_int nh)\<rparr>))))
         | None \<Rightarrow>
             if \<not> dragging_crop s then Returned s
             else if scale s = 0 then Raised ZeroDivisionError s
             else Returned s))"

definition on_crop_end :: "app \<Rightarrow> int \<Rightarrow> int \<Rightarrow> app outcome" where
  "on_crop_end s ex ey =
     (if crop_drag_mode s = Some Move \<or> crop_drag_mode s = Some Resize then
        update_crop_inputs
          (s\<lparr>crop_drag_mode := None, active_handle := None, drag_start_bounds := None\<rparr>)
      else
        (let s = s\<lparr>dragging_crop := False\<rparr>;
             cx1 = crop_start_x s; cy1 = crop_start_y s;
             cx2 = ex; cy2 = ey
         in case canvas_to_image s (of_int cx1) (of_int cy1) of
              Inl e \<Rightarrow> Raised e s
            | Inr (ix1, iy1) \<Rightarrow>
              (case canvas_to_image s (of_int cx2) (of_int cy2) of
                 Inl e \<Rightarrow> Raised e s
               | Inr (ix2, iy2) \<Rightarrow>
                 (let x = min ix1 ix2;
                      y = min iy1 iy2;
                      w = \<bar>ix2 - ix1\<bar>;
                      h = \<bar>iy2 - iy1\<bar>
                  in if w < 1 \<or> h < 1 then Returned (s\<lparr>crop_bounds := None\<rparr>)
                     else
                       and_then
                         (redraw (s\<lparr>crop_bounds := Some (py_int x, py_int y, py_int w, py_int h)\<rparr>))
                         update_crop_inputs))))"

text \<open>\<open>move_crop\<close>: the keyboard nudge, bound to the arrow keys with steps 1 and 10.\<close>

definition move_crop :: "app \<Rightarrow> int \<Rightarrow> int \<Rightarrow> app outcome" where
  "move_crop s dx dy =
     (case crop_bounds s of
        None \<Rightarrow> Returned s
      | Some (x, y, w, h) \<Rightarrow>
        (let nx = x + dx;
             ny = y + dy;
             nx = max 0 (min nx (img_width s - w));
             ny = max 0 (min ny (img_height s - h))
         in and_then (redraw (s\<lparr>crop_bounds := Some (nx, ny, w, h)\<rparr>)) update_crop_inputs))"

section \<open>Predicates used in the statements\<close>

text \<open>
  The bounds invariant of the crop rectangle inside a \<open>W \<times> H\<close> image, with the
  minimum size 10 of a resize.
\<close>

definition bounds_ok :: "int \<Rightarrow> int \<Rightarrow> bounds \<Rightarrow> bool" where
  "bounds_ok W H b =
     (case b of (x, y, w, h) \<Rightarrow> 0 \<le> x \<and> 0 \<le> y \<and> x + w \<le> W \<and> y + h \<le> H \<and> 10 \<le> w \<and> 10 \<le> h)"

text \<open>
  The invariant on a state: the crop rectangle, when there is one, and the snapshot
  taken at the start of a drag, when there is one, satisfy \<open>bounds_ok\<close>.
\<close>

definition crop_inv :: "app \<Rightarrow> bool" where
  "crop_inv s =
     ((case crop_bounds s of None \<Rightarrow> True | Some b \<Rightarrow> bounds_ok (img_width s) (img_height s) b)
      \<and> (case drag_start_bounds s of None \<Rightarrow> True | Some b \<Rightarrow> bounds_ok (img_width s) (img_height s) b))"


section \<open>Binary64 arithmetic\<close>






section \<open>Sample inputs\<close>

text \<open>
  The geotransform of the repository's test image, \<open>(116.0, 0.001, 0, 40.0, 0, -0.001)\<close>,
  a transform with rotation terms and determinant 2, a singular one, and states of the
  application on a \<open>1000 \<times> 800\<close> image.
\<close>

definition sample_gt :: geotransform where
  "sample_gt = (116, 1 / 1000, 0, 40, 0, - (1 / 1000))"



definition sample_io :: raster_io where
  "sample_io =
     \<lparr>opened = Inr \<lparr>width = 1000, height = 800, geotransform = sample_gt\<rparr>,
      create_ok = True, copy_ok = True\<rparr>"

definition sample_app :: app where
  "sample_app =
     \<lparr>original_image = True, scale = 1, offset_x = 0, offset_y = 0,
      img_width = 1000, img_height = 800,
      geo_transform = Some sample_gt,
      has_geo = True, inv_geo_transform = None, coord_mode = Geo,
      entries = (None, None, None, None),
      dragging_crop = False, crop_start_x = 0, crop_start_y = 0,
      crop_drag_mode = None, active_handle = None, drag_start_bounds = None,
      crop_bounds = None\<rparr>"

definition window_app :: app where
  "window_app = sample_app\<lparr>crop_bounds := Some (100, 50, 200, 150)\<rparr>"

definition move_app :: app where
  "move_app =
     sample_app\<lparr>crop_bounds := Some (900, 700, 100, 100), crop_drag_mode := Some Move,
       drag_start_bounds := Some (900, 700, 100, 100),
       crop_start_x := 950, crop_start_y := 750\<rparr>"

definition resize_app :: app where
  "resize_app =
     sample_app\<lparr>crop_bounds := Some (0, 0, 10, 10), crop_drag_mode := Some Resize,
       active_handle := Some SE, drag_start_bounds := Some (0, 0, 10, 10),
       crop_start_x := 10, crop_start_y := 10\<rparr>"

definition entry_app :: app where
  "entry_app =
     sample_app\<lparr>crop_bounds := Some (0, 0, 10, 10), coord_mode := Pixel,
       entries := (Some (- 5), Some 0, Some 3, Some 3)\<rparr>"

definition draw_app :: app where
  "draw_app = sample_app\<lparr>scale := 2, offset_x := 7, offset_y := 3,
      crop_bounds := Some (100, 100, 50, 50)\<rparr>"


section \<open>Auxiliary facts\<close>

lemma py_int_of_int [simp]: "py_int (of_int n) = n"
  by (simp add: py_int_def)

lemma py_int_numeral [simp]:
  "py_int (numeral n) = numeral n" "py_int (- numeral n) = - numeral n"
  "py_int 0 = 0" "py_int 1 = 1"
  by (simp_all add: py_int_def)

lemma py_int_ge: "of_int k \<le> x \<Longrightarrow> 0 \<le> k \<Longrightarrow> k \<le> py_int x"
  by (auto simp: py_int_def le_floor_iff)

lemma round_half_even_of_int: "round_half_even (of_int n) = n"
  by (simp add: round_half_even_def)

lemma state_of_redraw [simp]: "state_of (redraw s) = s"
  by (simp add: redraw_def)

lemma anchor_fixed:
  fixes a off sc ns :: real
  assumes "sc \<noteq> 0" "ns \<noteq> 0"
  shows "(a - (a - (a - off) * (ns / sc))) / ns = (a - off) / sc"
  using assms by (simp add: field_simps)

lemma update_crop_inputs_fields:
  "crop_bounds (state_of (update_crop_inputs s)) = crop_bounds s
   \<and> drag_start_bounds (state_of (update_crop_inputs s)) = drag_start_bounds s
   \<and> img_width (state_of (update_crop_inputs s)) = img_width s
   \<and> img_height (state_of (update_crop_inputs s)) = img_height s"
  by (auto simp: update_crop_inputs_def set_entries_def Let_def
      split: option.splits sum.splits prod.splits)

lemma crop_inv_update_crop_inputs: "crop_inv (state_of (update_crop_inputs s)) = crop_inv s"
  by (simp add: crop_inv_def update_crop_inputs_fields split: option.splits)

lemma state_of_and_then_redraw:
  "state_of (and_then (redraw s) update_crop_inputs) = s
   \<or> state_of (and_then (redraw s) update_crop_inputs) = state_of (update_crop_inputs s)"
  by (simp add: redraw_def)





section \<open>The crop rectangle under move, nudge, resize and numeric entry\<close>

lemma crop_inv_move_crop: "crop_inv s \<Longrightarrow> crop_inv (state_of (move_crop s dx dy))"
proof (cases "crop_bounds s")
  case None
  assume "crop_inv s"
  with None show ?thesis by (simp add: move_crop_def)
next
  case (Some b)
  assume inv: "crop_inv s"
  obtain x y w h where b: "b = (x, y, w, h)" by (cases b) auto
  let ?s1 = "s\<lparr>crop_bounds := Some (max 0 (min (x + dx) (img_width s - w)),
                                      max 0 (min (y + dy) (img_height s - h)), w, h)\<rparr>"
  have mv: "move_crop s dx dy = and_then (redraw ?s1) update_crop_inputs"
    using Some b by (simp add: move_crop_def Let_def)
  have inv1: "crop_inv ?s1"
    using inv Some b by (auto simp: crop_inv_def bounds_ok_def split: option.splits)
  from state_of_and_then_redraw [of ?s1] inv1 crop_inv_update_crop_inputs [of ?s1] mv
  show ?thesis by auto
qed

lemma crop_inv_drag_move:
  assumes inv: "crop_inv s" and mode: "crop_drag_mode s = Some Move"
  shows "crop_inv (state_of (on_crop_drag s cx cy))"
proof (cases "drag_start_bounds s")
  case None
  with inv mode show ?thesis by (simp add: on_crop_drag_def redraw_def)
next
  case (Some b)
  obtain x y w h where b: "b = (x, y, w, h)" by (cases b) auto
  show ?thesis
    using inv mode Some b
    by (auto simp: on_crop_drag_def Let_def crop_inv_def bounds_ok_def split: option.splits)
qed

lemma resize_min_size:
  assumes mode: "crop_drag_mode s = Some Resize" and dsb: "drag_start_bounds s = Some b"
    and sc: "scale s \<noteq> 0" and ah: "active_handle s = Some hdl"
  shows "\<exists>s' x y w h. on_crop_drag s cx cy = Returned s' \<and> crop_bounds s' = Some (x, y, w, h)
            \<and> 10 \<le> w \<and> 10 \<le> h"
proof -
  obtain x y w h where b: "b = (x, y, w, h)" by (cases b) auto
  have ge: "\<And>r::real. (10::int) \<le> py_int (max 10 r)"
    by (rule py_int_ge) simp_all
  show ?thesis
    using mode dsb sc ah b ge
    by (cases hdl) (simp_all add: on_crop_drag_def Let_def redraw_def)
qed

text \<open>
  C1, as the code has it. A drag-move and a keyboard nudge keep the invariant
  \<open>x \<ge> 0\<close>, \<open>y \<ge> 0\<close>, \<open>x + w \<le> W\<close>, \<open>y + h \<le> H\<close>, \<open>w \<ge> 10\<close>,
  \<open>h \<ge> 10\<close> of the crop rectangle and of the drag snapshot, for every pointer
  position and every step. A drag-resize by a corner handle yields a rectangle with
  \<open>w \<ge> 10\<close> and \<open>h \<ge> 10\<close>; it is not clamped against the image. A numeric-entry
  commit in pixel mode stores the entered values truncated toward zero, unclamped.
\<close>

theorem crop_mutations_bounds:
  "(crop_inv s \<and> crop_drag_mode s = Some Move \<longrightarrow> crop_inv (state_of (on_crop_drag s cx cy)))
   \<and> (crop_inv s \<longrightarrow> crop_inv (state_of (move_crop s dx dy)))
   \<and> (crop_drag_mode s = Some Resize \<and> drag_start_bounds s = Some b \<and> scale s \<noteq> 0
        \<and> active_handle s = Some hdl \<longrightarrow>
        (\<exists>s' x y w h. on_crop_drag s cx cy = Returned s' \<and> crop_bounds s' = Some (x, y, w, h)
            \<and> 10 \<le> w \<and> 10 \<le> h))
   \<and> (original_image s \<and> coord_mode s = Pixel \<and> entries s = (Some v_x, Some v_y, Some v_w, Some v_h) \<longrightarrow>
        crop_bounds (state_of (apply_input_bounds s))
          = Some (py_int v_x, py_int v_y, py_int v_w, py_int v_h))"
proof -
  have 4: "original_image s \<and> coord_mode s = Pixel \<and> entries s = (Some v_x, Some v_y, Some v_w, Some v_h) \<longrightarrow>
        crop_bounds (state_of (apply_input_bounds s))
          = Some (py_int v_x, py_int v_y, py_int v_w, py_int v_h)"
    by (simp add: apply_input_bounds_def)
  from crop_inv_drag_move [of s cx cy] crop_inv_move_crop [of s dx dy]
    resize_min_size [of s b hdl cx cy] 4
  show ?thesis by blast
qed

text \<open>
  C1 at concrete inputs: a move from \<open>(900, 700, 100, 100)\<close> by 50 display pixels
  to the right and 50 up on the \<open>1000 \<times> 800\<close> image stops at the right edge; a
  nudge, a resize far to the left and a numeric entry.
\<close>

theorem crop_mutations_bounds_witness:
  "crop_inv move_app
   \<and> on_crop_drag move_app 1000 700 = Returned (move_app\<lparr>crop_bounds := Some (900, 650, 100, 100)\<rparr>)
   \<and> crop_inv (state_of (on_crop_drag move_app 1000 700))
   \<and> crop_inv (state_of (move_crop move_app 10 0))
   \<and> (\<exists>s' x y w h. on_crop_drag resize_app (- 500) 10 = Returned s'
         \<and> crop_bounds s' = Some (x, y, w, h) \<and> 10 \<le> w \<and> 10 \<le> h)
   \<and> crop_bounds (state_of (apply_input_bounds entry_app)) = Some (- 5, 0, 3, 3)"
proof -
  have a: "crop_inv move_app" "crop_drag_mode move_app = Some Move"
    by (simp_all add: crop_inv_def bounds_ok_def move_app_def sample_app_def)
  have b: "crop_drag_mode resize_app = Some Resize \<and> drag_start_bounds resize_app = Some (0, 0, 10, 10)
      \<and> scale resize_app \<noteq> 0 \<and> active_handle resize_app = Some SE"
    by (simp add: resize_app_def sample_app_def)
  have c: "original_image entry_app \<and> coord_mode entry_app = Pixel
      \<and> entries entry_app = (Some (- 5), Some 0, Some 3, Some 3)"
    by (simp add: entry_app_def sample_app_def)
  have d: "on_crop_drag move_app 1000 700 = Returned (move_app\<lparr>crop_bounds := Some (900, 650, 100, 100)\<rparr>)"
    by (simp add: on_crop_drag_def move_app_def sample_app_def redraw_def Let_def)
  have m: "crop_inv (state_of (on_crop_drag move_app 1000 700))
     \<and> crop_inv (state_of (move_crop move_app 10 0))"
    using crop_mutations_bounds [of move_app 1000 700 10 0 "(0, 0, 10, 10)" SE 0 0 0 0] a
    by blast
  have r: "\<exists>s' x y w h. on_crop_drag resize_app (- 500) 10 = Returned s'
         \<and> crop_bounds s' = Some (x, y, w, h) \<and> 10 \<le> w \<and> 10 \<le> h"
    using crop_mutations_bounds [of resize_app "- 500" 10 0 0 "(0, 0, 10, 10)" SE 0 0 0 0] b
    by blast
  have e: "crop_bounds (state_of (apply_input_bounds entry_app)) = Some (- 5, 0, 3, 3)"
    using crop_mutations_bounds [of entry_app 0 0 0 0 "(0, 0, 10, 10)" SE "- 5" 0 3 3] c
    by simp
  from a(1) d m r e show ?thesis by blast
qed

text \<open>
  C1 as stated fails for the resize and for the numeric entry. From the valid
  rectangle \<open>(0, 0, 10, 10)\<close>, dragging the south-east handle 2000 display pixels to
  the right at scale 1 gives the width 2010 on an image 1000 wide; entering
  \<open>x = -5, w = 3, h = 3\<close> gives a rectangle with a negative origin and a size below 10.
\<close>

theorem crop_mutations_counterexample:
  "crop_inv resize_app
   \<and> on_crop_drag resize_app 2010 10 = Returned (resize_app\<lparr>crop_bounds := Some (0, 0, 2010, 10)\<rparr>)
   \<and> \<not> bounds_ok (img_width resize_app) (img_height resize_app) (0, 0, 2010, 10)
   \<and> crop_inv entry_app
   \<and> apply_input_bounds entry_app = Returned (entry_app\<lparr>crop_bounds := Some (- 5, 0, 3, 3)\<rparr>)
   \<and> \<not> bounds_ok (img_width entry_app) (img_height entry_app) (- 5, 0, 3, 3)"
  by (simp add: crop_inv_def bounds_ok_def resize_app_def entry_app_def sample_app_def
      on_crop_drag_def apply_input_bounds_def redraw_def Let_def)

section \<open>Zoom\<close>

text \<open>
  C2. With an image loaded and a positive scale, the wheel zoom and the toolbar zoom
  set the scale to the product \<open>scale * factor\<close> clamped to
  \<open>[MIN_ZOOM, MAX_ZOOM]\<close> and the offsets to
  \<open>anchor - (anchor - offset) * (new_scale / scale)\<close>, and the image coordinate of
  the anchor (the pointer, or the centre of the canvas) is the same before and after,
  for every factor. At the pointer \<open>(400, 300)\<close>, from scale 1 and offsets 0, a
  wheel step up gives scale 1.2 and offsets \<open>-80\<close> and \<open>-60\<close>.
\<close>

theorem wheel_zoom_anchor_invariant:
  assumes img: "original_image s" and pos: "0 < scale s"
  shows "(\<exists>s'. on_mouse_wheel s num delta mx my = Returned s'
            \<and> scale s' = min MAX_ZOOM (max MIN_ZOOM
                 (scale s * (if num = 5 \<or> delta < 0 then 1 / ZOOM_FACTOR else ZOOM_FACTOR)))
            \<and> offset_x s' = mx - (mx - offset_x s) * (scale s' / scale s)
            \<and> offset_y s' = my - (my - offset_y s) * (scale s' / scale s)
            \<and> canvas_to_image s' mx my = canvas_to_image s mx my)
       \<and> (\<exists>s'. zoom_view s factor cw ch = Returned s'
            \<and> scale s' = min MAX_ZOOM (max MIN_ZOOM (scale s * factor))
            \<and> offset_x s' = of_int cw / 2 - (of_int cw / 2 - offset_x s) * (scale s' / scale s)
            \<and> offset_y s' = of_int ch / 2 - (of_int ch / 2 - offset_y s) * (scale s' / scale s)
            \<and> canvas_to_image s' (of_int cw / 2) (of_int ch / 2)
                = canvas_to_image s (of_int cw / 2) (of_int ch / 2))
       \<and> (scale s = 1 \<and> offset_x s = 0 \<and> offset_y s = 0 \<and> num \<noteq> 5 \<and> 0 \<le> delta \<longrightarrow>
            (\<exists>s'. on_mouse_wheel s num delta 400 300 = Returned s'
               \<and> scale s' = 12 / 10 \<and> offset_x s' = - 80 \<and> offset_y s' = - 60))"
proof -
  have ne: "scale s \<noteq> 0" using pos by simp
  have A: "\<exists>s'. on_mouse_wheel s num delta mx my = Returned s'
            \<and> scale s' = min MAX_ZOOM (max MIN_ZOOM
                 (scale s * (if num = 5 \<or> delta < 0 then 1 / ZOOM_FACTOR else ZOOM_FACTOR)))
            \<and> offset_x s' = mx - (mx - offset_x s) * (scale s' / scale s)
            \<and> offset_y s' = my - (my - offset_y s) * (scale s' / scale s)
            \<and> canvas_to_image s' mx my = canvas_to_image s mx my"
    using img ne
    by (auto simp: on_mouse_wheel_def redraw_def canvas_to_image_def Let_def anchor_fixed
        MIN_ZOOM_def MAX_ZOOM_def min_def max_def)
  have B: "\<exists>s'. zoom_view s factor cw ch = Returned s'
            \<and> scale s' = min MAX_ZOOM (max MIN_ZOOM (scale s * factor))
            \<and> offset_x s' = of_int cw / 2 - (of_int cw / 2 - offset_x s) * (scale s' / scale s)
            \<and> offset_y s' = of_int ch / 2 - (of_int ch / 2 - offset_y s) * (scale s' / scale s)
            \<and> canvas_to_image s' (of_int cw / 2) (of_int ch / 2)
                = canvas_to_image s (of_int cw / 2) (of_int ch / 2)"
    using img ne
    by (auto simp: zoom_view_def redraw_def canvas_to_image_def Let_def anchor_fixed
        MIN_ZOOM_def MAX_ZOOM_def min_def max_def)
  have C: "scale s = 1 \<and> offset_x s = 0 \<and> offset_y s = 0 \<and> num \<noteq> 5 \<and> 0 \<le> delta \<longrightarrow>
            (\<exists>s'. on_mouse_wheel s num delta 400 300 = Returned s'
               \<and> scale s' = 12 / 10 \<and> offset_x s' = - 80 \<and> offset_y s' = - 60)"
    using img
    by (auto simp: on_mouse_wheel_def redraw_def Let_def
        MIN_ZOOM_def MAX_ZOOM_def ZOOM_FACTOR_def)
  from A B C show ?thesis by blast
qed

text \<open>C2 at the scenario of the specification, and a toolbar zoom by 3 on a canvas of 800 by 600.\<close>

theorem wheel_zoom_anchor_invariant_witness:
  "(\<exists>s'. on_mouse_wheel sample_app 4 120 400 300 = Returned s'
       \<and> scale s' = 12 / 10 \<and> offset_x s' = - 80 \<and> offset_y s' = - 60
       \<and> canvas_to_image s' 400 300 = canvas_to_image sample_app 400 300)
   \<and> (\<exists>s'. zoom_view sample_app 3 800 600 = Returned s'
       \<and> canvas_to_image s' (of_int 800 / 2) (of_int 600 / 2)
           = canvas_to_image sample_app (of_int 800 / 2) (of_int 600 / 2))"
proof -
  have h: "original_image sample_app" "0 < scale sample_app"
    "scale sample_app = 1 \<and> offset_x sample_app = 0 \<and> offset_y sample_app = 0
       \<and> (4::int) \<noteq> 5 \<and> (0::int) \<le> 120"
    by (simp_all add: sample_app_def)
  from wheel_zoom_anchor_invariant [OF h(1) h(2), of 4 120 400 300 3 800 600] h(3)
  show ?thesis by auto
qed

text \<open>
  C8, as the code has it. With an image of positive size loaded, \<open>zoom_fit\<close> sets
  \<open>scale = min(cw/W, ch/H) * 0.95\<close>, \<open>offset_x = (cw - W*scale)/2\<close> and
  \<open>offset_y = (ch - H*scale)/2\<close>, where the canvas size is replaced by
  \<open>800 \<times> 600\<close> when the canvas width is below 10 (the height is not tested); the
  redraw that follows raises when that scale is zero. On a \<open>1000 \<times> 800\<close> image and
  a canvas of \<open>800 \<times> 600\<close> the scale is 0.7125 and the offsets are 43.75 and 15.
\<close>

theorem zoom_fit_formula:
  assumes img: "original_image s" and W: "0 < img_width s" and H: "0 < img_height s"
  shows "zoom_fit s cw ch =
           (let cw' = (if cw < 10 then 800 else cw);
                ch' = (if cw < 10 then 600 else ch);
                sc = min (real_of_int cw' / real_of_int (img_width s))
                         (real_of_int ch' / real_of_int (img_height s)) * (95 / 100);
                s' = s\<lparr>scale := sc,
                       offset_x := (real_of_int cw' - real_of_int (img_width s) * sc) / 2,
                       offset_y := (real_of_int ch' - real_of_int (img_height s) * sc) / 2\<rparr>
            in if sc = 0 then Raised ZeroDivisionError s' else Returned s')
         \<and> (img_width s = 1000 \<and> img_height s = 800 \<longrightarrow>
              zoom_fit s 800 600 =
                Returned (s\<lparr>scale := 7125 / 10000, offset_x := 4375 / 100, offset_y := 15\<rparr>))"
  using img W H
  by (auto simp: zoom_fit_def redraw_def Let_def)

text \<open>C8 on the \<open>1000 \<times> 800\<close> image and the canvas of \<open>800 \<times> 600\<close>.\<close>

theorem zoom_fit_formula_witness:
  "zoom_fit sample_app 800 600 =
     Returned (sample_app\<lparr>scale := 7125 / 10000, offset_x := 4375 / 100, offset_y := 15\<rparr>)"
proof -
  have a: "original_image sample_app" "0 < img_width sample_app" "0 < img_height sample_app"
      "img_width sample_app = 1000 \<and> img_height sample_app = 800"
    by (simp_all add: sample_app_def)
  from zoom_fit_formula [OF a(1) a(2) a(3), of 800 600] a(4) show ?thesis by blast
qed

text \<open>
  C8 as stated fails twice. On the \<open>1000 \<times> 800\<close> image and the canvas of
  \<open>800 \<times> 600\<close> the scale is 0.7125, not about 0.57, and the offsets are 43.75 and
  15, not about 172 and 0. And a canvas \<open>800\<close> wide and \<open>5\<close> high is not
  replaced by \<open>800 \<times> 600\<close>: the scale comes from the height 5.
\<close>

theorem zoom_fit_counterexample:
  "(\<exists>s'. zoom_fit sample_app 800 600 = Returned s'
       \<and> scale s' = 7125 / 10000 \<and> offset_x s' = 4375 / 100 \<and> offset_y s' = 15
       \<and> \<not> \<bar>scale s' - 57 / 100\<bar> \<le> 1 / 10
       \<and> \<not> \<bar>offset_x s' - 172\<bar> \<le> 100
       \<and> \<not> \<bar>offset_y s' - 0\<bar> \<le> 10)
   \<and> (\<exists>s'. zoom_fit sample_app 800 5 = Returned s'
       \<and> scale s' = 5 / 800 * (95 / 100)
       \<and> scale s' \<noteq> min (800 / 1000) (600 / 800) * (95 / 100))"
  by (simp add: zoom_fit_def redraw_def Let_def sample_app_def)

section \<open>Drawing a rectangle\<close>

text \<open>
  C9. In a state with a positive scale where no move or resize is in progress (the
  state a drawing drag is in: \<open>on_crop_start\<close> away from the handles and from the
  inside of the rectangle clears the drag mode and the rectangle and stores the start
  point), releasing the pointer at the start point leaves no crop rectangle, and so
  does releasing it anywhere the width or the height in image space is below 1.
\<close>

theorem zero_drag_no_selection:
  assumes pos: "0 < scale s" and draw: "crop_drag_mode s = None"
  shows "(\<exists>s'. on_crop_end s (crop_start_x s) (crop_start_y s) = Returned s' \<and> crop_bounds s' = None)
       \<and> (\<bar>(of_int ex - offset_x s) / scale s - (of_int (crop_start_x s) - offset_x s) / scale s\<bar> < 1
           \<or> \<bar>(of_int ey - offset_y s) / scale s - (of_int (crop_start_y s) - offset_y s) / scale s\<bar> < 1
          \<longrightarrow> (\<exists>s'. on_crop_end s ex ey = Returned s' \<and> crop_bounds s' = None))
       \<and> (original_image s0 \<and> get_handle_at s0 x y = None \<and> \<not> is_inside_crop s0 x y \<longrightarrow>
            crop_drag_mode (on_crop_start s0 x y) = None
            \<and> dragging_crop (on_crop_start s0 x y)
            \<and> crop_bounds (on_crop_start s0 x y) = None
            \<and> crop_start_x (on_crop_start s0 x y) = x \<and> crop_start_y (on_crop_start s0 x y) = y
            \<and> scale (on_crop_start s0 x y) = scale s0)"
proof -
  have ne: "scale s \<noteq> 0" using pos by simp
  have A: "\<exists>s'. on_crop_end s (crop_start_x s) (crop_start_y s) = Returned s' \<and> crop_bounds s' = None"
    using ne draw by (simp add: on_crop_end_def canvas_to_image_def Let_def)
  have B: "\<bar>(of_int ex - offset_x s) / scale s - (of_int (crop_start_x s) - offset_x s) / scale s\<bar> < 1
           \<or> \<bar>(of_int ey - offset_y s) / scale s - (of_int (crop_start_y s) - offset_y s) / scale s\<bar> < 1
          \<longrightarrow> (\<exists>s'. on_crop_end s ex ey = Returned s' \<and> crop_bounds s' = None)"
    using ne draw by (auto simp: on_crop_end_def canvas_to_image_def Let_def)
  have C: "original_image s0 \<and> get_handle_at s0 x y = None \<and> \<not> is_inside_crop s0 x y \<longrightarrow>
            crop_drag_mode (on_crop_start s0 x y) = None
            \<and> dragging_crop (on_crop_start s0 x y)
            \<and> crop_bounds (on_crop_start s0 x y) = None
            \<and> crop_start_x (on_crop_start s0 x y) = x \<and> crop_start_y (on_crop_start s0 x y) = y
            \<and> scale (on_crop_start s0 x y) = scale s0"
    by (simp add: on_crop_start_def)
  from A B C show ?thesis by blast
qed

text \<open>
  C9 at \<open>(50, 50)\<close>, at scale 2 with offsets 7 and 3 and an older rectangle elsewhere:
  a press and release at the same point, and a release one display pixel to the right.
\<close>

theorem zero_drag_no_selection_witness:
  "(\<exists>s'. on_crop_end (on_crop_start draw_app 50 50) 50 50 = Returned s' \<and> crop_bounds s' = None)
   \<and> (\<exists>s'. on_crop_end (on_crop_start draw_app 50 50) 51 90 = Returned s' \<and> crop_bounds s' = None)"
proof -
  have g: "original_image draw_app \<and> get_handle_at draw_app 50 50 = None \<and> \<not> is_inside_crop draw_app 50 50"
    by (simp add: draw_app_def sample_app_def get_handle_at_def is_inside_crop_def
        image_to_canvas_def HANDLE_SIZE_def Let_def)
  have st: "crop_drag_mode (on_crop_start draw_app 50 50) = None
      \<and> crop_start_x (on_crop_start draw_app 50 50) = 50
      \<and> crop_start_y (on_crop_start draw_app 50 50) = 50
      \<and> scale (on_crop_start draw_app 50 50) = scale draw_app"
    using zero_drag_no_selection [of draw_app 0 0 draw_app 50 50] g
    by (simp add: draw_app_def sample_app_def)
  have sc: "0 < scale (on_crop_start draw_app 50 50)" "scale (on_crop_start draw_app 50 50) = 2"
    using st by (simp_all add: draw_app_def sample_app_def)
  have md: "crop_drag_mode (on_crop_start draw_app 50 50) = None" using st by simp
  have small: "\<bar>(of_int 51 - offset_x (on_crop_start draw_app 50 50)) / scale (on_crop_start draw_app 50 50)
        - (of_int (crop_start_x (on_crop_start draw_app 50 50)) - offset_x (on_crop_start draw_app 50 50))
            / scale (on_crop_start draw_app 50 50)\<bar> < 1"
    using st sc(2) by (simp add: diff_divide_distrib [symmetric])
  from zero_drag_no_selection [OF sc(1) md, of 51 90 draw_app 50 50] st small
  show ?thesis by auto
qed

section \<open>Properties of the coordinate transformation\<close>

text \<open>
  C4. For every geotransform and every integer offset pair,
  \<open>calculate_crop_geotransform\<close> returns a transform whose origin is
  \<open>pixel_to_geo\<close> of the offsets under the original transform and whose four
  scale and rotation terms are those of the original; hence \<open>pixel_to_geo\<close> of the
  new transform at \<open>(p, q)\<close> is \<open>pixel_to_geo\<close> of the original transform at
  \<open>(p + x_off, q + y_off)\<close>.
\<close>

theorem calculate_crop_geotransform_footprint:
  fixes x0 pw xr y0 yr ph :: real and x_off y_off p q :: int
  shows "calculate_crop_geotransform (x0, pw, xr, y0, yr, ph) x_off y_off =
           (fst (pixel_to_geo (x0, pw, xr, y0, yr, ph) x_off y_off), pw, xr,
            snd (pixel_to_geo (x0, pw, xr, y0, yr, ph) x_off y_off), yr, ph)
         \<and> pixel_to_geo (calculate_crop_geotransform (x0, pw, xr, y0, yr, ph) x_off y_off) p q =
           pixel_to_geo (x0, pw, xr, y0, yr, ph) (p + x_off) (q + y_off)"
  by (simp add: calculate_crop_geotransform_def pixel_to_geo_def algebra_simps)












text \<open>
  C7, as the code has it. On the test geotransform the corners of the pixel window
  \<open>(100, 50, 200, 150)\<close> are \<open>pixel_to_geo(100, 50) = (116.1, 39.95)\<close> and
  \<open>pixel_to_geo(300, 200) = (116.3, 39.8)\<close>, and in geo mode the entry fields show
  \<open>x = 116.1\<close>, \<open>y = 39.8\<close>, \<open>w = 0.2\<close>, \<open>h = 0.15\<close>: the bounds are
  \<open>minX = 116.1\<close>, \<open>maxX = 116.3\<close>, \<open>minY = 39.8\<close>, \<open>maxY = 39.95\<close>.
\<close>

theorem geo_bounds_report:
  "pixel_to_geo sample_gt 100 50 = (1161 / 10, 3995 / 100)
   \<and> pixel_to_geo sample_gt (100 + 200) (50 + 150) = (1163 / 10, 398 / 10)
   \<and> update_crop_inputs window_app =
       Returned (window_app\<lparr>entries := (Some (1161 / 10), Some (398 / 10), Some (2 / 10), Some (15 / 100))\<rparr>)"
proof -
  have 1: "fmt Geo (1161 / 10) = 1161 / 10"
    using round_half_even_of_int [of 116100000] by (simp add: fmt_def)
  have 2: "fmt Geo (398 / 10) = 398 / 10"
    using round_half_even_of_int [of 39800000] by (simp add: fmt_def)
  have 3: "fmt Geo (2 / 10) = 2 / 10"
    using round_half_even_of_int [of 200000] by (simp add: fmt_def)
  have 4: "fmt Geo (15 / 100) = 15 / 100"
    using round_half_even_of_int [of 150000] by (simp add: fmt_def)
  show ?thesis
    using 1 2 3 4
    by (simp add: pixel_to_geo_def update_crop_inputs_def window_app_def sample_app_def
        sample_gt_def gui_pixel_to_geo_def set_entries_def)
qed

text \<open>C7: the southern bound that the fields show.\<close>

theorem geo_bounds_report_witness:
  "fst (snd (entries (state_of (update_crop_inputs window_app)))) = Some (398 / 10)"
  using geo_bounds_report by simp

text \<open>
  C7 as stated fails in \<open>minY\<close>: the minimum of the two corner ordinates is 39.8,
  which is 0.05 away from 39.85.
\<close>

theorem geo_bounds_report_counterexample:
  "min (snd (pixel_to_geo sample_gt 100 50)) (snd (pixel_to_geo sample_gt (100 + 200) (50 + 150)))
     = 398 / 10
   \<and> \<not> \<bar>(398 / 10 :: real) - 3985 / 100\<bar> \<le> 1 / 10 ^ 9"
  by (simp add: pixel_to_geo_def sample_gt_def)

section \<open>Validation of the pixel window at crop time\<close>

text \<open>
  C10. Once the source raster is open with size \<open>width \<times> height\<close>,
  \<open>crop_by_pixel\<close> raises \<open>InvalidBoundsError\<close>, and writes nothing, exactly when
  \<open>x_off < 0\<close>, \<open>y_off < 0\<close>, \<open>x_off \<ge> width\<close>, \<open>y_off \<ge> height\<close>,
  \<open>x_size \<le> 0\<close> or \<open>y_size \<le> 0\<close>. For every other window the offsets are
  kept, each size is reduced to what is left of the image, so that
  \<open>x_off + x_size \<le> width\<close> and \<open>y_off + y_size \<le> height\<close> with positive sizes,
  and the crop goes on to GDAL with the reduced window.
\<close>

theorem crop_by_pixel_validation:
  assumes op: "opened io = Inr info"
  shows "((\<exists>c. crop_by_pixel io x_off y_off x_size y_size = Inl (InvalidBoundsError c)) \<longleftrightarrow>
            (x_off < 0 \<or> y_off < 0 \<or> x_off \<ge> width info \<or> y_off \<ge> height info
               \<or> x_size \<le> 0 \<or> y_size \<le> 0))
         \<and> (\<not> (x_off < 0 \<or> y_off < 0 \<or> x_off \<ge> width info \<or> y_off \<ge> height info
               \<or> x_size \<le> 0 \<or> y_size \<le> 0) \<longrightarrow>
             (\<exists>x_size' y_size'.
                validate_pixel_bounds (x_off, y_off, x_size, y_size) (width info) (height info)
                  = Inr (x_off, y_off, x_size', y_size')
                \<and> x_size' = min x_size (width info - x_off)
                \<and> y_size' = min y_size (height info - y_off)
                \<and> 0 < x_size' \<and> 0 < y_size'
                \<and> x_off + x_size' \<le> width info \<and> y_off + y_size' \<le> height info
                \<and> crop_by_pixel io x_off y_off x_size y_size =
                    (if \<not> create_ok io then Inl GDALError
                     else if \<not> copy_ok io then Inl RuntimeError
                     else Inr \<lparr>dst_width = x_size', dst_height = y_size',
                               dst_gt = calculate_crop_geotransform (geotransform info) x_off y_off,
                               src_window = (x_off, y_off, x_size', y_size')\<rparr>)))"
  using op
  by (auto simp: crop_by_pixel_def validate_pixel_bounds_def Let_def min_def)

text \<open>
  C10 on the \<open>1000 \<times> 800\<close> image: the window \<open>(900, 700, 200, 150)\<close> is cut to
  \<open>(900, 700, 100, 100)\<close> and written, and the window with origin \<open>(1000, 0)\<close> is
  refused.
\<close>

theorem crop_by_pixel_validation_witness:
  "crop_by_pixel sample_io 900 700 200 150 =
     Inr \<lparr>dst_width = 100, dst_height = 100,
          dst_gt = calculate_crop_geotransform sample_gt 900 700,
          src_window = (900, 700, 100, 100)\<rparr>
   \<and> (\<exists>c. crop_by_pixel sample_io 1000 0 10 10 = Inl (InvalidBoundsError c))"
proof -
  have o: "opened sample_io = Inr \<lparr>width = 1000, height = 800, geotransform = sample_gt\<rparr>"
    by (simp add: sample_io_def)
  from crop_by_pixel_validation [OF o, of 900 700 200 150]
  have 1: "crop_by_pixel sample_io 900 700 200 150 =
     Inr \<lparr>dst_width = 100, dst_height = 100,
          dst_gt = calculate_crop_geotransform sample_gt 900 700,
          src_window = (900, 700, 100, 100)\<rparr>"
    by (simp add: sample_io_def)
  from crop_by_pixel_validation [OF o, of 1000 0 10 10]
  have 2: "\<exists>c. crop_by_pixel sample_io 1000 0 10 10 = Inl (InvalidBoundsError c)"
    by simp
  from 1 2 show ?thesis by blast
qed

end
